theory Spec2Isabelle
  imports Main
begin

section \<open>JavaScript values\<close>

text \<open>
  A JavaScript string is a sequence of UTF-16 code units. The regular expressions of
  \<open>toList\<close> carry no \<open>u\<close> flag and \<open>trim\<close> works on code units of the Basic
  Multilingual Plane, so a string is modelled as the list of its code units, each a
  natural number below 65536. An ASCII literal of the source is written \<open>js ''...''\<close>.
\<close>

type_synonym jstring = "nat list"

definition js :: "string \<Rightarrow> jstring" where
  "js s = map of_char s"

text \<open>
  The values the service can send (\<open>res.json()\<close>) and the values the helpers receive,
  their TypeScript types being erased at run time. A number is carried as its rendering
  by the ECMAScript \<open>Number::toString\<close>: the code never computes with a number of the
  response, it only tests it for truthiness and prints it. \<open>String\<close> prints every number
  by that rendering and \<open>JSON.stringify\<close> every finite one; the numbers that are not
  finite render as \<open>Infinity\<close>, \<open>-Infinity\<close> (a JSON literal such as \<open>1e999\<close> parses to
  it) and \<open>NaN\<close>, and \<open>JSON.stringify\<close> prints them as \<open>null\<close>. An object is the list of its own
  enumerable properties in enumeration order, the order of \<open>Object.values\<close>; a parsed
  JSON object has no two properties of the same name.
\<close>

datatype json =
    JUndefined
  | JNull
  | JBool bool
  | JNum jstring
  | JStr jstring
  | JArr "json list"
  | JObj "(jstring \<times> json) list"

datatype js_error = TypeError

definition non_finite :: "jstring \<Rightarrow> bool" where
  "non_finite r = (r = js ''Infinity'' \<or> r = js ''-Infinity'' \<or> r = js ''NaN'')"

text \<open>
  \<open>Boolean(v)\<close>, the truthiness used by \<open>!val\<close>, \<open>||\<close> and \<open>filter(Boolean)\<close>. The
  falsy numbers are zero, which prints as \<open>0\<close> with either sign, and \<open>NaN\<close>.
\<close>

fun truthy :: "json \<Rightarrow> bool" where
  "truthy JUndefined = False"
| "truthy JNull = False"
| "truthy (JBool b) = b"
| "truthy (JNum r) = (r \<noteq> js ''0'' \<and> r \<noteq> js ''NaN'')"
| "truthy (JStr s) = (s \<noteq> [])"
| "truthy (JArr xs) = True"
| "truthy (JObj kvs) = True"

text \<open>The operator \<open>a ?? b\<close>: \<open>b\<close> when \<open>a\<close> is \<open>null\<close> or \<open>undefined\<close>, else \<open>a\<close>.\<close>

definition nullish :: "json \<Rightarrow> bool" where
  "nullish v = (v = JNull \<or> v = JUndefined)"

definition coalesce :: "json \<Rightarrow> json \<Rightarrow> json" where
  "coalesce a b = (if nullish a then b else a)"

text \<open>
  Property access \<open>d.name\<close> on an object or array, for the names the code reads
  (\<open>response\<close>, \<open>message\<close>, \<open>reply\<close>, \<open>text\<close>, \<open>content\<close>, \<open>conversation_id\<close>, \<open>id\<close>,
  \<open>_id\<close>, the report fields): none of them is an array index or a property of
  \<open>Object.prototype\<close>, \<open>Array.prototype\<close> or \<open>String.prototype\<close>, so the access yields
  the own property, or \<open>undefined\<close>. Likewise \<open>name in d\<close>.
\<close>

fun field :: "json \<Rightarrow> jstring \<Rightarrow> json" where
  "field (JObj kvs) k = (case map_of kvs k of None \<Rightarrow> JUndefined | Some v \<Rightarrow> v)"
| "field _ k = JUndefined"

fun has_field :: "jstring \<Rightarrow> json \<Rightarrow> bool" where
  "has_field k (JObj kvs) = (map_of kvs k \<noteq> None)"
| "has_field k _ = False"

text \<open>\<open>Object.values(d)\<close>; on a string primitive it yields the one-unit strings.\<close>

fun Object_values :: "json \<Rightarrow> json list" where
  "Object_values (JObj kvs) = map snd kvs"
| "Object_values (JArr xs) = xs"
| "Object_values (JStr s) = map (\<lambda>c. JStr [c]) s"
| "Object_values _ = []"

section \<open>String conversion and JSON serialisation\<close>

fun join :: "jstring \<Rightarrow> jstring list \<Rightarrow> jstring" where
  "join sep [] = []"
| "join sep [x] = x"
| "join sep (x # y # ys) = x @ sep @ join sep (y # ys)"

text \<open>
  \<open>String(v)\<close>. A plain object prints as \<open>[object Object]\<close> through
  \<open>Object.prototype.toString\<close>, unless it has an own property \<open>toString\<close>: a value
  parsed from JSON is never callable, \<open>valueOf\<close> returns the object itself, and the
  conversion throws a TypeError. An array prints its elements joined by commas,
  \<open>null\<close> and \<open>undefined\<close> as the empty string.
\<close>

fun js_String :: "json \<Rightarrow> js_error + jstring"
  and join_elements :: "json list \<Rightarrow> js_error + jstring list" where
  "js_String JUndefined = Inr (js ''undefined'')"
| "js_String JNull = Inr (js ''null'')"
| "js_String (JBool b) = Inr (if b then js ''true'' else js ''false'')"
| "js_String (JNum r) = Inr r"
| "js_String (JStr s) = Inr s"
| "js_String (JArr xs) =
     (case join_elements xs of Inl e \<Rightarrow> Inl e | Inr ss \<Rightarrow> Inr (join (js '','') ss))"
| "js_String (JObj kvs) =
     (if map_of kvs (js ''toString'') \<noteq> None then Inl TypeError
      else Inr (js ''[object Object]''))"
| "join_elements [] = Inr []"
| "join_elements (v # vs) =
     (case (if nullish v then Inr [] else js_String v) of
        Inl e \<Rightarrow> Inl e
      | Inr s \<Rightarrow> (case join_elements vs of Inl e \<Rightarrow> Inl e | Inr ss \<Rightarrow> Inr (s # ss)))"

text \<open>
  \<open>QuoteJSONString\<close> of ECMA-262: the two-character escapes, the six-character escape with four lower-case
  hexadecimal digits for the other control characters and for a surrogate that is not part
  of a pair, every other code unit as it is.
\<close>

definition hex_digit :: "nat \<Rightarrow> nat" where
  "hex_digit d = (if d < 10 then 48 + d else 87 + d)"

definition UnicodeEscape :: "nat \<Rightarrow> jstring" where
  "UnicodeEscape c =
     [92, 117, hex_digit (c div 4096 mod 16), hex_digit (c div 256 mod 16),
      hex_digit (c div 16 mod 16), hex_digit (c mod 16)]"

definition is_leading_surrogate :: "nat \<Rightarrow> bool" where
  "is_leading_surrogate c = (55296 \<le> c \<and> c \<le> 56319)"

definition is_trailing_surrogate :: "nat \<Rightarrow> bool" where
  "is_trailing_surrogate c = (56320 \<le> c \<and> c \<le> 57343)"

fun quote_units :: "jstring \<Rightarrow> jstring" where
  "quote_units [] = []"
| "quote_units (c # cs) =
     (if c = 8 then [92, 98] @ quote_units cs
      else if c = 9 then [92, 116] @ quote_units cs
      else if c = 10 then [92, 110] @ quote_units cs
      else if c = 12 then [92, 102] @ quote_units cs
      else if c = 13 then [92, 114] @ quote_units cs
      else if c = 34 then [92, 34] @ quote_units cs
      else if c = 92 then [92, 92] @ quote_units cs
      else if c < 32 then UnicodeEscape c @ quote_units cs
      else if is_leading_surrogate c then
        (case cs of
           [] \<Rightarrow> UnicodeEscape c
         | d # ds \<Rightarrow>
             if is_trailing_surrogate d then c # d # quote_units ds
             else UnicodeEscape c @ quote_units cs)
      else if is_trailing_surrogate c then UnicodeEscape c @ quote_units cs
      else c # quote_units cs)"

definition QuoteJSONString :: "jstring \<Rightarrow> jstring" where
  "QuoteJSONString s = [34] @ quote_units s @ [34]"

text \<open>
  \<open>JSON.stringify(v, null, 2)\<close>: \<open>SerializeJSONProperty\<close> with the gap of two spaces,
  \<open>ind\<close> the current indentation. \<open>None\<close> is the result \<open>undefined\<close>: such a property
  is left out of an object and printed as \<open>null\<close> in an array. A number that is not
  finite is printed as \<open>null\<close>.
\<close>

definition gap :: jstring where
  "gap = [32, 32]"

fun SerializeJSONProperty :: "jstring \<Rightarrow> json \<Rightarrow> jstring option" where
  "SerializeJSONProperty ind JUndefined = None"
| "SerializeJSONProperty ind JNull = Some (js ''null'')"
| "SerializeJSONProperty ind (JBool b) = Some (if b then js ''true'' else js ''false'')"
| "SerializeJSONProperty ind (JNum r) = Some (if non_finite r then js ''null'' else r)"
| "SerializeJSONProperty ind (JStr s) = Some (QuoteJSONString s)"
| "SerializeJSONProperty ind (JArr xs) =
     Some (case map (\<lambda>v. case SerializeJSONProperty (ind @ gap) v of
                            None \<Rightarrow> js ''null'' | Some t \<Rightarrow> t) xs of
             [] \<Rightarrow> js ''[]''
           | p # ps \<Rightarrow>
               [91, 10] @ ind @ gap @ join ([44, 10] @ ind @ gap) (p # ps)
                 @ [10] @ ind @ [93])"
| "SerializeJSONProperty ind (JObj kvs) =
     Some (case concat (map (\<lambda>kv. case SerializeJSONProperty (ind @ gap) (snd kv) of
                                    None \<Rightarrow> []
                                  | Some t \<Rightarrow> [QuoteJSONString (fst kv) @ [58, 32] @ t]) kvs) of
             [] \<Rightarrow> js ''{}''
           | p # ps \<Rightarrow>
               [123, 10] @ ind @ gap @ join ([44, 10] @ ind @ gap) (p # ps)
                 @ [10] @ ind @ [125])"

definition JSON_stringify :: "json \<Rightarrow> json" where
  "JSON_stringify v = (case SerializeJSONProperty [] v of None \<Rightarrow> JUndefined | Some s \<Rightarrow> JStr s)"

section \<open>Helpers of the chat component\<close>

text \<open>
  \<open>isStructuredReport\<close>: a non-null object on which one of the three names is present
  (\<open>in\<close> asks for presence only, whatever the value).
\<close>

fun is_object :: "json \<Rightarrow> bool" where
  "is_object (JObj kvs) = True"
| "is_object (JArr xs) = True"
| "is_object _ = False"

definition isStructuredReport :: "json \<Rightarrow> bool" where
  "isStructuredReport data =
     (if \<not> is_object data then False
      else has_field (js ''summary'') data \<or> has_field (js ''abnormal_findings'') data
           \<or> has_field (js ''urgency'') data)"

text \<open>
  White space of ECMA-262 (\<open>WhiteSpace\<close> and \<open>LineTerminator\<close>): what \<open>\s\<close> matches
  and what \<open>trim\<close> removes.
\<close>

definition is_ws :: "nat \<Rightarrow> bool" where
  "is_ws c =
     (c = 9 \<or> c = 10 \<or> c = 11 \<or> c = 12 \<or> c = 13 \<or> c = 32 \<or> c = 160 \<or> c = 5760
      \<or> (8192 \<le> c \<and> c \<le> 8202) \<or> c = 8232 \<or> c = 8233 \<or> c = 8239 \<or> c = 8287
      \<or> c = 12288 \<or> c = 65279)"

definition trim :: "jstring \<Rightarrow> jstring" where
  "trim s = rev (dropWhile is_ws (rev (dropWhile is_ws s)))"

text \<open>\<open>s.split(/[\n;]/)\<close>: the pieces between the line feeds and semicolons.\<close>

definition is_delim :: "nat \<Rightarrow> bool" where
  "is_delim c = (c = 10 \<or> c = 59)"

fun split :: "jstring \<Rightarrow> jstring list" where
  "split [] = [[]]"
| "split (c # cs) =
     (if is_delim c then [] # split cs
      else (case split cs of [] \<Rightarrow> [[c]] | x # xs \<Rightarrow> (c # x) # xs))"

text \<open>
  \<open>s.replace(/^[-\<bullet>*]\s*/, "")\<close>: the class holds the hyphen-minus (45), the bullet
  U+2022 (8226) and the asterisk (42); a match takes that one character at the very
  start of \<open>s\<close> and the longest run of white space after it, which may be empty.
\<close>

definition is_bullet :: "nat \<Rightarrow> bool" where
  "is_bullet c = (c = 45 \<or> c = 8226 \<or> c = 42)"

fun strip_bullet :: "jstring \<Rightarrow> jstring" where
  "strip_bullet [] = []"
| "strip_bullet (c # cs) = (if is_bullet c then dropWhile is_ws cs else c # cs)"

text \<open>
  \<open>toList\<close>. Its parameter is typed \<open>string | string[] | undefined\<close>, and a report comes
  unchecked from the service: on a truthy value that is neither an array nor a string
  \<open>val.split\<close> is not a function and the call throws.
\<close>

definition toList :: "json \<Rightarrow> js_error + json list" where
  "toList val =
     (if \<not> truthy val then Inr []
      else case val of
        JArr xs \<Rightarrow> Inr (filter truthy xs)
      | JStr s \<Rightarrow>
          Inr (filter truthy (map (\<lambda>s. JStr (trim (strip_bullet s))) (split s)))
      | _ \<Rightarrow> Inl TypeError)"

text \<open>The test \<open>typeof v === "string"\<close>.\<close>

fun is_string :: "json \<Rightarrow> bool" where
  "is_string (JStr s) = True"
| "is_string _ = False"

text \<open>
  The constant \<open>top\<close> of \<open>extractContent\<close>: the first of the five properties that is
  neither \<open>null\<close> nor \<open>undefined\<close>, whatever its type; \<open>reply_keys\<close> lists their names
  in the order of the chain.
\<close>

definition top_field :: "json \<Rightarrow> json" where
  "top_field d =
     coalesce (field d (js ''response''))
       (coalesce (field d (js ''message''))
         (coalesce (field d (js ''reply''))
           (coalesce (field d (js ''text'')) (field d (js ''content'')))))"

definition reply_keys :: "jstring list" where
  "reply_keys = [js ''response'', js ''message'', js ''reply'', js ''text'', js ''content'']"

text \<open>
  \<open>extractContent\<close>. The result is a JavaScript value: a string, or the object taken
  for a report.
\<close>

definition extractContent :: "json \<Rightarrow> js_error + json" where
  "extractContent data =
     (case data of
        JStr s \<Rightarrow> Inr (JStr s)
      | JNull \<Rightarrow> Inr (JStr [])
      | JUndefined \<Rightarrow> Inr (JStr [])
      | _ \<Rightarrow>
        if is_object data then
          (case top_field data of
             JStr s \<Rightarrow> Inr (JStr s)
           | _ \<Rightarrow>
             if isStructuredReport data then Inr data
             else (case find isStructuredReport (Object_values data) of
                     Some v \<Rightarrow> Inr v
                   | None \<Rightarrow> Inr (JSON_stringify data)))
        else (case js_String data of Inl e \<Rightarrow> Inl e | Inr s \<Rightarrow> Inr (JStr s)))"

section \<open>The chat session\<close>

datatype role = User | Assistant

text \<open>
  A message of the transcript. Its id is \<open>Date.now().toString()\<close>, the decimal digits
  of the clock reading, which the model takes as an argument of the handler.
\<close>

fun decimal :: "nat \<Rightarrow> jstring" where
  "decimal n = (if n < 10 then [48 + n] else decimal (n div 10) @ [48 + n mod 10])"

declare decimal.simps [simp del]

record message =
  msg_id :: jstring
  role :: role
  content :: json
  fileName :: "jstring option"

datatype js_file = File (file_name: jstring)

text \<open>
  The state of \<open>ExpandableAIChat\<close> that the handlers read and write; \<open>input_value\<close>
  is the state variable \<open>value\<close>, \<open>None\<close> is \<open>null\<close>.
\<close>

record session =
  input_value :: jstring
  messages :: "message list"
  isTyping :: bool
  conversationId :: "jstring option"
  pendingFile :: "js_file option"

text \<open>
  What a handler hands to \<open>fetch\<close>: the creation of a conversation, a chat message
  (conversation id of the URL, \<open>message\<close> of the body) or a report (conversation id,
  the multipart fields \<open>file\<close> and \<open>message\<close>). \<open>await fetch(...)\<close> followed by
  \<open>await res.json()\<close> either rejects (a TypeError of the transport, a SyntaxError of
  the body) or resolves with the parsed value.
\<close>

datatype request =
    CreateConversation
  | Chat jstring jstring
  | AnalyzeReport jstring js_file jstring

datatype failure = TransportError | SyntaxError

datatype outcome = Rejected failure | Resolved json

text \<open>
  \<open>createConversation\<close> after the await: reading a property of \<open>null\<close> throws, and the
  id is \<open>String\<close> of the first of the four candidates that is neither \<open>null\<close> nor
  \<open>undefined\<close>.
\<close>

definition createConversation :: "outcome \<Rightarrow> (failure + js_error) + jstring" where
  "createConversation r =
     (case r of
        Rejected f \<Rightarrow> Inl (Inl f)
      | Resolved data \<Rightarrow>
          if nullish data then Inl (Inr TypeError)
          else (case js_String
                       (coalesce (field data (js ''conversation_id''))
                         (coalesce (field data (js ''id''))
                           (coalesce (field data (js ''_id''))
                             (case Object_values data of [] \<Rightarrow> JUndefined | v # vs \<Rightarrow> v)))) of
                  Inl e \<Rightarrow> Inl (Inr e)
                | Inr i \<Rightarrow> Inr i))"

text \<open>
  The effect on mount and the second half of \<open>clearChat\<close>: the id is stored when the
  creation succeeds, a failure is only logged.
\<close>

definition created :: "outcome \<Rightarrow> session \<Rightarrow> session" where
  "created r s =
     (case createConversation r of Inl e \<Rightarrow> s | Inr i \<Rightarrow> s\<lparr>conversationId := Some i\<rparr>)"

definition clearChat :: "session \<Rightarrow> session \<times> request" where
  "clearChat s =
     (s\<lparr>messages := [], conversationId := None, pendingFile := None\<rparr>, CreateConversation)"

text \<open>
  \<open>runAnalysis\<close> up to its fetch, at clock reading \<open>now\<close>; \<open>!conversationId\<close> holds
  of \<open>null\<close> and of the empty string.
\<close>

definition runAnalysis :: "nat \<Rightarrow> js_file \<Rightarrow> jstring \<Rightarrow> session \<Rightarrow> session \<times> request option" where
  "runAnalysis now f prompt s =
     (case conversationId s of
        None \<Rightarrow> (s, None)
      | Some cid \<Rightarrow>
          if cid = [] then (s, None)
          else
            (s\<lparr>messages := messages s @
                  [\<lparr>msg_id = decimal now, role = User,
                    content = JStr (if prompt = [] then js ''Analyze this report'' else prompt),
                    fileName = Some (file_name f)\<rparr>],
                isTyping := True\<rparr>,
             Some (AnalyzeReport cid f
                    (if prompt = [] then js ''Please analyze this medical report.''
                     else prompt))))"

definition fallback :: jstring where
  "fallback = js ''Sorry, couldn't reach the server.''"

text \<open>
  The rest of \<open>runAnalysis\<close> and of \<open>sendMessage\<close>, run when the request settles at
  clock reading \<open>now\<close>: the \<open>try\<close> block covers \<open>extractContent\<close>, the \<open>catch\<close> appends
  the fixed text, the \<open>finally\<close> clears the indicator. Both use the functional form
  \<open>setMessages(prev => ...)\<close>, so they extend the transcript of the moment.
\<close>

definition reply_content :: "outcome \<Rightarrow> json" where
  "reply_content r =
     (case r of
        Rejected f \<Rightarrow> JStr fallback
      | Resolved data \<Rightarrow> (case extractContent data of Inl e \<Rightarrow> JStr fallback | Inr c \<Rightarrow> c))"

definition runAnalysis_settled :: "nat \<Rightarrow> outcome \<Rightarrow> session \<Rightarrow> session" where
  "runAnalysis_settled now r s =
     s\<lparr>messages := messages s @
          [\<lparr>msg_id = decimal (now + 1), role = Assistant, content = reply_content r,
            fileName = None\<rparr>],
       isTyping := False\<rparr>"

definition sendMessage :: "nat \<Rightarrow> session \<Rightarrow> session \<times> request option" where
  "sendMessage now s =
     (let text = trim (input_value s) in
      if text = [] \<and> pendingFile s = None then (s, None)
      else case conversationId s of
        None \<Rightarrow> (s, None)
      | Some cid \<Rightarrow>
          if cid = [] then (s, None)
          else (case pendingFile s of
                  Some f \<Rightarrow> runAnalysis now f text (s\<lparr>pendingFile := None, input_value := []\<rparr>)
                | None \<Rightarrow>
                    (s\<lparr>messages := messages s @
                          [\<lparr>msg_id = decimal now, role = User, content = JStr text,
                            fileName = None\<rparr>],
                        input_value := [], isTyping := True\<rparr>,
                     Some (Chat cid text))))"

definition sendMessage_settled :: "nat \<Rightarrow> outcome \<Rightarrow> session \<Rightarrow> session" where
  "sendMessage_settled now r s =
     s\<lparr>messages := messages s @
          [\<lparr>msg_id = decimal (now + 1), role = Assistant, content = reply_content r,
            fileName = None\<rparr>],
       isTyping := False\<rparr>"

text \<open>
  \<open>handleAnalyze\<close> of the page (the file chosen there, its prompt), which calls
  \<open>analyzeReport\<close>, that is \<open>runAnalysis\<close>, of the mounted chat.
\<close>

definition handleAnalyze :: "nat \<Rightarrow> js_file option \<Rightarrow> jstring \<Rightarrow> session \<Rightarrow> session \<times> request option" where
  "handleAnalyze now fo prompt s =
     (case fo of
        None \<Rightarrow> (s, None)
      | Some f \<Rightarrow>
          runAnalysis now f
            (if prompt = [] then js ''Please analyze this medical report.'' else prompt) s)"

subsection \<open>Executions\<close>

text \<open>
  The component runs on one event loop: a handler runs up to its first await, and the rest
  of it runs when its request settles, with whatever happened in between. An execution
  is a list of events applied to the session together with the requests in flight;
  a request in flight remembers which continuation waits for it and, for a send, the
  conversation id of the closure that issued it.
\<close>

datatype pending = Creating | Chatting jstring | Analysing jstring

record system =
  app :: session
  inflight :: "pending list"
  outbox :: "request list"

datatype event =
    Mount
  | SetValue jstring
  | SetPendingFile js_file
  | SendMessage nat
  | AnalyzeReportCall nat js_file jstring
  | ClearChat
  | Settle nat outcome nat

fun pending_of :: "request \<Rightarrow> pending" where
  "pending_of CreateConversation = Creating"
| "pending_of (Chat cid t) = Chatting cid"
| "pending_of (AnalyzeReport cid f m) = Analysing cid"

definition issue :: "system \<Rightarrow> session \<times> request option \<Rightarrow> system" where
  "issue st out =
     (case snd out of
        None \<Rightarrow> st\<lparr>app := fst out\<rparr>
      | Some q \<Rightarrow>
          st\<lparr>app := fst out, inflight := inflight st @ [pending_of q],
              outbox := outbox st @ [q]\<rparr>)"

fun step :: "system \<Rightarrow> event \<Rightarrow> system" where
  "step st Mount = issue st (app st, Some CreateConversation)"
| "step st (SetValue v) = st\<lparr>app := (app st)\<lparr>input_value := v\<rparr>\<rparr>"
| "step st (SetPendingFile f) = st\<lparr>app := (app st)\<lparr>pendingFile := Some f\<rparr>\<rparr>"
| "step st (SendMessage now) = issue st (sendMessage now (app st))"
| "step st (AnalyzeReportCall now f prompt) = issue st (runAnalysis now f prompt (app st))"
| "step st ClearChat = issue st (fst (clearChat (app st)), Some (snd (clearChat (app st))))"
| "step st (Settle k r now) =
     (if k < length (inflight st) then
        st\<lparr>app := (case inflight st ! k of
                     Creating \<Rightarrow> created r (app st)
                   | Chatting cid \<Rightarrow> sendMessage_settled now r (app st)
                   | Analysing cid \<Rightarrow> runAnalysis_settled now r (app st)),
            inflight := take k (inflight st) @ drop (Suc k) (inflight st)\<rparr>
      else st)"

definition initial :: system where
  "initial =
     \<lparr>app = \<lparr>input_value = [], messages = [], isTyping = False, conversationId = None,
             pendingFile = None\<rparr>,
      inflight = [], outbox = []\<rparr>"

definition run :: "event list \<Rightarrow> system" where
  "run es = foldl step initial es"

subsection \<open>Sample executions\<close>

text \<open>
  A session with an id and a draft, the same session with an attachment and no draft,
  and an execution in which the chat is reset while a message is in flight: the conversation \<open>c1\<close> is created, \<open>hello\<close> is sent, the chat
  is cleared, the fresh conversation \<open>c2\<close> is created, and only then the reply to
  \<open>hello\<close> arrives.
\<close>

definition sample_session :: session where
  "sample_session =
     \<lparr>input_value = js '' hello '', messages = [], isTyping = False,
      conversationId = Some (js ''c1''), pendingFile = None\<rparr>"

definition attachment_session :: session where
  "attachment_session =
     sample_session\<lparr>input_value := [], pendingFile := Some (File (js ''scan.png''))\<rparr>"

text \<open>
  A connected chat whose draft is blank, and a chat that is still connecting.
\<close>

definition blank_draft_run :: "event list" where
  "blank_draft_run =
     [Mount, Settle 0 (Resolved (JObj [(js ''id'', JStr (js ''c1''))])) 0, SetValue (js ''  '')]"

definition connecting_run :: "event list" where
  "connecting_run = [Mount, SetValue (js ''hello'')]"

definition reset_race :: "event list" where
  "reset_race =
     [Mount,
      Settle 0 (Resolved (JObj [(js ''conversation_id'', JStr (js ''c1''))])) 0,
      SetValue (js ''hello''),
      SendMessage 1,
      ClearChat,
      Settle 1 (Resolved (JObj [(js ''conversation_id'', JStr (js ''c2''))])) 3,
      Settle 0 (Resolved (JStr (js ''stale''))) 5]"

section \<open>The list coercion as the specification words it\<close>

text \<open>
  Section 4.2 of the specification describes the bullet marker as one of the three
  characters followed by white space. Read to the letter, a segment loses its first
  character only when white space comes after it; \<open>spec_toList_string\<close> is the
  coercion of a string with this stripping step, every other step as in \<open>toList\<close>.
\<close>

fun spec_strip_marker :: "jstring \<Rightarrow> jstring" where
  "spec_strip_marker (c # d # cs) =
     (if is_bullet c \<and> is_ws d then dropWhile is_ws cs else c # d # cs)"
| "spec_strip_marker s = s"

definition spec_toList_string :: "jstring \<Rightarrow> jstring list" where
  "spec_toList_string s =
     filter (\<lambda>t. t \<noteq> []) (map (\<lambda>seg. trim (spec_strip_marker seg)) (split s))"

section \<open>The response normaliser\<close>

lemma extractContent_object:
  "is_object data \<Longrightarrow> extractContent data =
     (case top_field data of
        JStr s \<Rightarrow> Inr (JStr s)
      | _ \<Rightarrow> if isStructuredReport data then Inr data
             else (case find isStructuredReport (Object_values data) of
                     Some v \<Rightarrow> Inr v
                   | None \<Rightarrow> Inr (JSON_stringify data)))"
  by (cases data; hypsubst) (simp_all add: extractContent_def)

lemma extractContent_not_string:
  "is_object data \<Longrightarrow> \<not> is_string (top_field data) \<Longrightarrow> extractContent data =
     (if isStructuredReport data then Inr data
      else (case find isStructuredReport (Object_values data) of
              Some v \<Rightarrow> Inr v
            | None \<Rightarrow> Inr (JSON_stringify data)))"
  by (cases "top_field data") (simp_all add: extractContent_object)

lemma top_field_first:
  assumes "i < length reply_keys" "field data (reply_keys ! i) = v" "\<not> nullish v"
    "\<forall>j<i. nullish (field data (reply_keys ! j))"
  shows "top_field data = v"
proof -
  from assms(1) have "i = 0 \<or> i = 1 \<or> i = 2 \<or> i = 3 \<or> i = 4"
    by (auto simp: reply_keys_def)
  then show ?thesis
    using assms(2-)
    by (elim disjE)
      (simp_all add: top_field_def coalesce_def reply_keys_def All_less_Suc numeral_eq_Suc
        less_Suc_eq)
qed

lemma top_field_cases: "top_field data \<in> field data ` set reply_keys"
  by (simp add: top_field_def coalesce_def reply_keys_def)

lemma top_field_no_string:
  "\<forall>k\<in>set reply_keys. \<not> is_string (field data k) \<Longrightarrow> \<not> is_string (top_field data)"
  using top_field_cases [of data] by auto

lemma serialize_object: "is_object data \<Longrightarrow> \<exists>t. SerializeJSONProperty ind data = Some t"
  by (cases data) simp_all

lemma extractContent_total: "\<exists>c. extractContent data = Inr c"
proof (cases "is_object data")
  case True
  then show ?thesis
    by (simp add: extractContent_object split: json.split option.split)
next
  case False
  then show ?thesis by (cases data) (simp_all add: extractContent_def)
qed

text \<open>
  C5. A string is returned as it is, and \<open>null\<close> and \<open>undefined\<close> give the empty
  string.
\<close>

theorem extractContent_string_verbatim:
  "extractContent (JStr s) = Inr (JStr s) \<and> extractContent JNull = Inr (JStr [])
   \<and> extractContent JUndefined = Inr (JStr [])"
  by (simp add: extractContent_def)

text \<open>
  C2, as the code has it. The chain of \<open>??\<close> stops at the first reply key whose value is
  neither \<open>null\<close> nor \<open>undefined\<close>: when that value is a string, this string is the
  result, whatever else the object holds. In particular (\<open>i = 0\<close>) a string under
  \<open>response\<close> is always returned.
\<close>

theorem extractContent_first_reply_field:
  assumes "i < length reply_keys" "field (JObj kvs) (reply_keys ! i) = JStr s"
    "\<forall>j<i. nullish (field (JObj kvs) (reply_keys ! j))"
  shows "extractContent (JObj kvs) = Inr (JStr s)"
proof -
  have "top_field (JObj kvs) = JStr s"
    using assms by (intro top_field_first [of i]) (simp_all add: nullish_def)
  then show ?thesis by (simp add: extractContent_object)
qed

theorem extractContent_first_reply_field_witness:
  "(1::nat) < length reply_keys
   \<and> field (JObj [(js ''response'', JNull), (js ''message'', JStr (js ''hi'')),
                  (js ''urgency'', JStr (js ''low''))]) (reply_keys ! 1) = JStr (js ''hi'')
   \<and> nullish (field (JObj [(js ''response'', JNull), (js ''message'', JStr (js ''hi'')),
                  (js ''urgency'', JStr (js ''low''))]) (reply_keys ! 0))
   \<and> extractContent (JObj [(js ''response'', JNull), (js ''message'', JStr (js ''hi'')),
                  (js ''urgency'', JStr (js ''low''))]) = Inr (JStr (js ''hi''))"
proof -
  let ?d = "[(js ''response'', JNull), (js ''message'', JStr (js ''hi'')),
             (js ''urgency'', JStr (js ''low''))]"
  have h1: "(1::nat) < length reply_keys" by (simp add: reply_keys_def)
  have h2: "field (JObj ?d) (reply_keys ! 1) = JStr (js ''hi'')"
    by (simp add: reply_keys_def js_def)
  have h0: "nullish (field (JObj ?d) (reply_keys ! 0))"
    by (simp add: reply_keys_def js_def nullish_def)
  then have h3: "\<forall>j<1. nullish (field (JObj ?d) (reply_keys ! j))" by simp
  from extractContent_first_reply_field [OF h1 h2 h3] h1 h2 h0 show ?thesis by blast
qed

text \<open>
  The claim C2 as it is worded fails: in the object below the first string-valued reply
  field is \<open>message\<close>, but \<open>response\<close> holds \<open>true\<close>, the chain stops there, and the
  result is the serialisation of the whole object, not \<open>hi\<close>.
\<close>

theorem extractContent_first_string_field_counterexample:
  "field (JObj [(js ''response'', JBool True), (js ''message'', JStr (js ''hi''))])
     (js ''message'') = JStr (js ''hi'')
   \<and> \<not> is_string (field (JObj [(js ''response'', JBool True), (js ''message'', JStr (js ''hi''))])
           (js ''response''))
   \<and> extractContent (JObj [(js ''response'', JBool True), (js ''message'', JStr (js ''hi''))])
       = Inr (JSON_stringify (JObj [(js ''response'', JBool True), (js ''message'', JStr (js ''hi''))]))
   \<and> extractContent (JObj [(js ''response'', JBool True), (js ''message'', JStr (js ''hi''))])
       \<noteq> Inr (JStr (js ''hi''))"
  by (simp add: extractContent_def top_field_def js_def coalesce_def nullish_def
      isStructuredReport_def JSON_stringify_def)

lemma fallback_applies:
  assumes "is_object data" "\<forall>k\<in>set reply_keys. \<not> is_string (field data k)"
    "\<not> isStructuredReport data" "\<forall>x\<in>set (Object_values data). \<not> isStructuredReport x"
  shows "extractContent data = Inr (JSON_stringify data)"
proof -
  from assms(4) have "find isStructuredReport (Object_values data) = None"
    by (simp add: find_None_iff)
  with assms show ?thesis
    by (simp add: extractContent_not_string top_field_no_string)
qed

lemma serialize_detail_example:
  \<open>extractContent (JObj [(js ''detail'', JStr (js ''Not Found''))])
       = Inr (JStr (js ''{\<newline>  "detail": "Not Found"\<newline>}''))\<close>
  by (simp add: extractContent_def top_field_def coalesce_def nullish_def
        isStructuredReport_def JSON_stringify_def js_def gap_def QuoteJSONString_def
        is_leading_surrogate_def is_trailing_surrogate_def)

lemma serialize_nested_example:
  \<open>extractContent
        (JObj [(js ''error'',
                JObj [(js ''code'', JNum (js ''404'')),
                      (js ''tags'', JArr [JStr (js ''a''), JNull, JBool True]),
                      (js ''limit'', JNum (js ''Infinity'')),
                      (js ''none'', JObj []), (js ''nil'', JArr [])])])
       = Inr (JStr (js ''{\<newline>  "error": {\<newline>    "code": 404,\<newline>    "tags": [\<newline>      "a",\<newline>      null,\<newline>      true\<newline>    ],\<newline>    "limit": null,\<newline>    "none": {},\<newline>    "nil": []\<newline>  }\<newline>}''))\<close>
  by (simp add: extractContent_def top_field_def coalesce_def nullish_def
        isStructuredReport_def JSON_stringify_def js_def gap_def QuoteJSONString_def
        is_leading_surrogate_def is_trailing_surrogate_def non_finite_def)

lemma quote_escapes_example:
  \<open>QuoteJSONString (js ''a"b'' @ [92, 10, 1, 55357])
     = js ''"a'' @ [92] @ js ''"b'' @ [92, 92, 92] @ js ''n'' @ [92] @ js ''u0001'' @ [92] @ js ''ud83d"''\<close>
  by (simp add: js_def QuoteJSONString_def UnicodeEscape_def hex_digit_def
        is_leading_surrogate_def is_trailing_surrogate_def)

lemma quote_units_plain:
  "\<forall>c\<in>set s. 32 \<le> c \<and> c \<noteq> 34 \<and> c \<noteq> 92 \<and> (c < 55296 \<or> 57343 < c) \<Longrightarrow> quote_units s = s"
proof (induction s)
  case Nil
  show ?case by simp
next
  case (Cons a s)
  then have a: "32 \<le> a" "a \<noteq> 34" "a \<noteq> 92" "\<not> is_leading_surrogate a"
      "\<not> is_trailing_surrogate a"
    and r: "quote_units s = s"
    by (auto simp add: is_leading_surrogate_def is_trailing_surrogate_def)
  then show ?case by simp
qed

lemma serialize_object_layout:
  "SerializeJSONProperty ind (JObj kvs) =
     Some (case concat (map (\<lambda>kv. case SerializeJSONProperty (ind @ js ''  '') (snd kv) of
                                   None \<Rightarrow> []
                                 | Some t \<Rightarrow> [QuoteJSONString (fst kv) @ js '': '' @ t]) kvs) of
             [] \<Rightarrow> js ''{}''
           | p # ps \<Rightarrow>
               js ''{\<newline>'' @ ind @ js ''  '' @ join (js '',\<newline>'' @ ind @ js ''  '') (p # ps)
                 @ js ''\<newline>'' @ ind @ js ''}'')"
  by (simp add: gap_def js_def cong: list.case_cong option.case_cong)

lemma serialize_array_layout:
  "SerializeJSONProperty ind (JArr xs) =
     Some (case map (\<lambda>v. case SerializeJSONProperty (ind @ js ''  '') v of
                           None \<Rightarrow> js ''null'' | Some t \<Rightarrow> t) xs of
             [] \<Rightarrow> js ''[]''
           | p # ps \<Rightarrow>
               js ''[\<newline>'' @ ind @ js ''  '' @ join (js '',\<newline>'' @ ind @ js ''  '') (p # ps)
                 @ js ''\<newline>'' @ ind @ js '']'')"
  by (simp add: gap_def js_def cong: list.case_cong option.case_cong)

lemma serialize_number:
  "SerializeJSONProperty ind (JNum r) =
     Some (if r = js ''Infinity'' \<or> r = js ''-Infinity'' \<or> r = js ''NaN'' then js ''null'' else r)"
  by (simp add: non_finite_def)

text \<open>
  C3. \<open>extractContent\<close> never throws, on any value. On an object (or array) that has
  no string among its reply fields, is no report and holds no report among its values,
  the result is the string that \<open>JSON.stringify(d, null, 2)\<close> prints. That string is
  fixed by the equations below: an object prints its properties, each as the quoted
  name, a colon, a space and the value, one to a line, two spaces deeper than the
  object, between braces, the properties whose value is \<open>undefined\<close> left out; an array
  prints its elements in the same way between brackets, \<open>undefined\<close> as \<open>null\<close>; a
  string is quoted with its escapes, a finite number is printed as it is and any other
  number as \<open>null\<close>. The empty object prints as \<open>{}\<close>, and two responses are printed
  in full.
\<close>

theorem extractContent_total_fallback:
  \<open>
  (\<exists>c. extractContent v = Inr c)
  \<and> (is_object data \<and> (\<forall>k\<in>set reply_keys. \<not> is_string (field data k))
        \<and> \<not> isStructuredReport data \<and> (\<forall>x\<in>set (Object_values data). \<not> isStructuredReport x)
      \<longrightarrow> (\<exists>t. SerializeJSONProperty [] data = Some t \<and> extractContent data = Inr (JStr t)))
  \<and> SerializeJSONProperty ind (JObj kvs) =
       Some (case concat (map (\<lambda>kv. case SerializeJSONProperty (ind @ js ''  '') (snd kv) of
                                     None \<Rightarrow> []
                                   | Some t \<Rightarrow> [QuoteJSONString (fst kv) @ js '': '' @ t]) kvs) of
               [] \<Rightarrow> js ''{}''
             | p # ps \<Rightarrow>
                 js ''{\<newline>'' @ ind @ js ''  '' @ join (js '',\<newline>'' @ ind @ js ''  '') (p # ps)
                   @ js ''\<newline>'' @ ind @ js ''}'')
  \<and> SerializeJSONProperty ind (JArr xs) =
       Some (case map (\<lambda>v. case SerializeJSONProperty (ind @ js ''  '') v of
                             None \<Rightarrow> js ''null'' | Some t \<Rightarrow> t) xs of
               [] \<Rightarrow> js ''[]''
             | p # ps \<Rightarrow>
                 js ''[\<newline>'' @ ind @ js ''  '' @ join (js '',\<newline>'' @ ind @ js ''  '') (p # ps)
                   @ js ''\<newline>'' @ ind @ js '']'')
  \<and> SerializeJSONProperty ind (JStr s) = Some (QuoteJSONString s)
  \<and> SerializeJSONProperty ind (JNum r) =
       Some (if r = js ''Infinity'' \<or> r = js ''-Infinity'' \<or> r = js ''NaN'' then js ''null''
             else r)
  \<and> SerializeJSONProperty ind (JBool True) = Some (js ''true'')
  \<and> SerializeJSONProperty ind (JBool False) = Some (js ''false'')
  \<and> SerializeJSONProperty ind JNull = Some (js ''null'')
  \<and> SerializeJSONProperty ind JUndefined = None
  \<and> ((\<forall>c\<in>set s. 32 \<le> c \<and> c \<noteq> 34 \<and> c \<noteq> 92 \<and> (c < 55296 \<or> 57343 < c))
      \<longrightarrow> QuoteJSONString s = js ''"'' @ s @ js ''"'')
  \<and> QuoteJSONString (js ''a"b'' @ [92, 10, 1, 55357]) =
       js ''"a'' @ [92] @ js ''"b'' @ [92, 92, 92] @ js ''n'' @ [92] @ js ''u0001'' @ [92]
         @ js ''ud83d"''
  \<and> extractContent (JObj []) = Inr (JStr (js ''{}''))
  \<and> extractContent (JObj [(js ''detail'', JStr (js ''Not Found''))]) =
       Inr (JStr (js ''{\<newline>  "detail": "Not Found"\<newline>}''))
  \<and> extractContent
        (JObj [(js ''error'',
                JObj [(js ''code'', JNum (js ''404'')),
                      (js ''tags'', JArr [JStr (js ''a''), JNull, JBool True]),
                      (js ''limit'', JNum (js ''Infinity'')),
                      (js ''none'', JObj []), (js ''nil'', JArr [])])]) =
       Inr (JStr (js ''{\<newline>  "error": {\<newline>    "code": 404,\<newline>    "tags": [\<newline>      "a",\<newline>      null,\<newline>      true\<newline>    ],\<newline>    "limit": null,\<newline>    "none": {},\<newline>    "nil": []\<newline>  }\<newline>}''))\<close>
proof (intro conjI impI)
  show "\<exists>c. extractContent v = Inr c" by (rule extractContent_total)
next
  assume h: "is_object data \<and> (\<forall>k\<in>set reply_keys. \<not> is_string (field data k))
        \<and> \<not> isStructuredReport data \<and> (\<forall>x\<in>set (Object_values data). \<not> isStructuredReport x)"
  then obtain t where t: "SerializeJSONProperty [] data = Some t"
    using serialize_object by blast
  from h have "extractContent data = Inr (JSON_stringify data)"
    by (simp add: fallback_applies)
  with t show "\<exists>t. SerializeJSONProperty [] data = Some t \<and> extractContent data = Inr (JStr t)"
    by (simp add: JSON_stringify_def)
next
  show "SerializeJSONProperty ind (JObj kvs) =
       Some (case concat (map (\<lambda>kv. case SerializeJSONProperty (ind @ js ''  '') (snd kv) of
                                     None \<Rightarrow> []
                                   | Some t \<Rightarrow> [QuoteJSONString (fst kv) @ js '': '' @ t]) kvs) of
               [] \<Rightarrow> js ''{}''
             | p # ps \<Rightarrow>
                 js ''{\<newline>'' @ ind @ js ''  '' @ join (js '',\<newline>'' @ ind @ js ''  '') (p # ps)
                   @ js ''\<newline>'' @ ind @ js ''}'')"
    by (rule serialize_object_layout)
next
  show "SerializeJSONProperty ind (JArr xs) =
       Some (case map (\<lambda>v. case SerializeJSONProperty (ind @ js ''  '') v of
                             None \<Rightarrow> js ''null'' | Some t \<Rightarrow> t) xs of
               [] \<Rightarrow> js ''[]''
             | p # ps \<Rightarrow>
                 js ''[\<newline>'' @ ind @ js ''  '' @ join (js '',\<newline>'' @ ind @ js ''  '') (p # ps)
                   @ js ''\<newline>'' @ ind @ js '']'')"
    by (rule serialize_array_layout)
next
  show "SerializeJSONProperty ind (JNum r) =
       Some (if r = js ''Infinity'' \<or> r = js ''-Infinity'' \<or> r = js ''NaN'' then js ''null''
             else r)"
    by (rule serialize_number)
next
  assume "\<forall>c\<in>set s. 32 \<le> c \<and> c \<noteq> 34 \<and> c \<noteq> 92 \<and> (c < 55296 \<or> 57343 < c)"
  then show \<open>QuoteJSONString s = js ''"'' @ s @ js ''"''\<close>
    by (simp add: QuoteJSONString_def quote_units_plain js_def)
next
  show \<open>QuoteJSONString (js ''a"b'' @ [92, 10, 1, 55357]) =
       js ''"a'' @ [92] @ js ''"b'' @ [92, 92, 92] @ js ''n'' @ [92] @ js ''u0001'' @ [92]
         @ js ''ud83d"''\<close>
    by (rule quote_escapes_example)
next
  show "extractContent (JObj []) = Inr (JStr (js ''{}''))"
    by (simp add: extractContent_def top_field_def coalesce_def nullish_def
        isStructuredReport_def JSON_stringify_def)
next
  show \<open>extractContent (JObj [(js ''detail'', JStr (js ''Not Found''))]) =
       Inr (JStr (js ''{\<newline>  "detail": "Not Found"\<newline>}''))\<close>
    by (rule serialize_detail_example)
next
  show \<open>extractContent
        (JObj [(js ''error'',
                JObj [(js ''code'', JNum (js ''404'')),
                      (js ''tags'', JArr [JStr (js ''a''), JNull, JBool True]),
                      (js ''limit'', JNum (js ''Infinity'')),
                      (js ''none'', JObj []), (js ''nil'', JArr [])])]) =
       Inr (JStr (js ''{\<newline>  "error": {\<newline>    "code": 404,\<newline>    "tags": [\<newline>      "a",\<newline>      null,\<newline>      true\<newline>    ],\<newline>    "limit": null,\<newline>    "none": {},\<newline>    "nil": []\<newline>  }\<newline>}''))\<close>
    by (rule serialize_nested_example)
qed (simp_all add: js_def)

theorem extractContent_total_fallback_witness:
  \<open>
  is_object (JObj [(js ''detail'', JStr (js ''Not Found''))])
  \<and> list_all (\<lambda>k. \<not> is_string (field (JObj [(js ''detail'', JStr (js ''Not Found''))]) k))
       reply_keys
  \<and> \<not> isStructuredReport (JObj [(js ''detail'', JStr (js ''Not Found''))])
  \<and> list_all (\<lambda>x. \<not> isStructuredReport x)
       (Object_values (JObj [(js ''detail'', JStr (js ''Not Found''))]))
  \<and> list_all (\<lambda>c. 32 \<le> c \<and> c \<noteq> 34 \<and> c \<noteq> 92 \<and> (c < 55296 \<or> 57343 < c)) (js ''Not Found'')
  \<and> QuoteJSONString (js ''Not Found'') = js ''"Not Found"''
  \<and> SerializeJSONProperty [] (JObj [(js ''detail'', JStr (js ''Not Found''))]) =
       Some (js ''{\<newline>  "detail": "Not Found"\<newline>}'')
  \<and> extractContent (JObj [(js ''detail'', JStr (js ''Not Found''))]) =
       Inr (JStr (js ''{\<newline>  "detail": "Not Found"\<newline>}''))\<close>
proof -
  let ?d = "JObj [(js ''detail'', JStr (js ''Not Found''))]"
  have h: "is_object ?d \<and> list_all (\<lambda>k. \<not> is_string (field ?d k)) reply_keys
        \<and> \<not> isStructuredReport ?d \<and> list_all (\<lambda>x. \<not> isStructuredReport x) (Object_values ?d)"
    by (simp add: reply_keys_def js_def isStructuredReport_def)
  have s: \<open>SerializeJSONProperty [] ?d = Some (js ''{\<newline>  "detail": "Not Found"\<newline>}'')\<close>
    by (simp add: js_def gap_def QuoteJSONString_def is_leading_surrogate_def
        is_trailing_surrogate_def)
  from extractContent_total_fallback [where data = ?d] h
  have "\<exists>t. SerializeJSONProperty [] ?d = Some t \<and> extractContent ?d = Inr (JStr t)"
    unfolding list_all_iff by blast
  with s have \<open>extractContent ?d = Inr (JStr (js ''{\<newline>  "detail": "Not Found"\<newline>}''))\<close>
    by simp
  moreover have q: "list_all (\<lambda>c. 32 \<le> c \<and> c \<noteq> 34 \<and> c \<noteq> 92 \<and> (c < 55296 \<or> 57343 < c))
      (js ''Not Found'')"
    by (simp add: js_def)
  moreover from extractContent_total_fallback [where s = "js ''Not Found''"] q
  have \<open>QuoteJSONString (js ''Not Found'') = js ''"Not Found"''\<close>
    unfolding list_all_iff by (simp add: js_def)
  ultimately show ?thesis using h s by (elim conjE) (intro conjI, assumption+)
qed

lemma has_field_iff: "has_field k (JObj kvs) \<longleftrightarrow> k \<in> fst ` set kvs"
  by (simp add: map_of_eq_None_iff)

text \<open>
  C4. An object on which \<open>summary\<close>, \<open>abnormal_findings\<close> or \<open>urgency\<close> is present
  and which has no string among its reply fields is returned itself, as the report.
  For \<open>{summary: "ok"}\<close> the report is that object, its summary is \<open>ok\<close>, and
  \<open>toList\<close> of each of the three list fields is the empty list.
\<close>

theorem extractContent_structured_report:
  "((js ''summary'' \<in> fst ` set kvs \<or> js ''abnormal_findings'' \<in> fst ` set kvs
       \<or> js ''urgency'' \<in> fst ` set kvs)
      \<and> (\<forall>k\<in>set reply_keys. \<not> is_string (field (JObj kvs) k))
     \<longrightarrow> extractContent (JObj kvs) = Inr (JObj kvs))
   \<and> extractContent (JObj [(js ''summary'', JStr (js ''ok''))])
       = Inr (JObj [(js ''summary'', JStr (js ''ok''))])
   \<and> field (JObj [(js ''summary'', JStr (js ''ok''))]) (js ''summary'') = JStr (js ''ok'')
   \<and> toList (field (JObj [(js ''summary'', JStr (js ''ok''))]) (js ''abnormal_findings'')) = Inr []
   \<and> toList (field (JObj [(js ''summary'', JStr (js ''ok''))]) (js ''recommended_tests'')) = Inr []
   \<and> toList (field (JObj [(js ''summary'', JStr (js ''ok''))]) (js ''lifestyle_suggestions'')) = Inr []"
proof (intro conjI impI)
  assume h: "(js ''summary'' \<in> fst ` set kvs \<or> js ''abnormal_findings'' \<in> fst ` set kvs
       \<or> js ''urgency'' \<in> fst ` set kvs)
      \<and> (\<forall>k\<in>set reply_keys. \<not> is_string (field (JObj kvs) k))"
  then have "isStructuredReport (JObj kvs)"
    unfolding isStructuredReport_def has_field_iff by simp
  with h show "extractContent (JObj kvs) = Inr (JObj kvs)"
    by (simp add: extractContent_not_string top_field_no_string)
qed (simp_all add: extractContent_def top_field_def coalesce_def nullish_def
      isStructuredReport_def js_def toList_def)

theorem extractContent_structured_report_witness:
  "js ''urgency'' \<in> fst ` set [(js ''urgency'', JStr (js ''high'')), (js ''response'', JNull)]
   \<and> list_all
        (\<lambda>k. \<not> is_string
               (field (JObj [(js ''urgency'', JStr (js ''high'')), (js ''response'', JNull)]) k))
        reply_keys
   \<and> extractContent (JObj [(js ''urgency'', JStr (js ''high'')), (js ''response'', JNull)])
      = Inr (JObj [(js ''urgency'', JStr (js ''high'')), (js ''response'', JNull)])"
proof -
  let ?kvs = "[(js ''urgency'', JStr (js ''high'')), (js ''response'', JNull)]"
  have h1: "js ''urgency'' \<in> fst ` set ?kvs" by simp
  have h2: "list_all (\<lambda>k. \<not> is_string (field (JObj ?kvs) k)) reply_keys"
    by (simp add: reply_keys_def js_def)
  from extractContent_structured_report [of ?kvs] h1 h2 show ?thesis
    unfolding list_all_iff by blast
qed

section \<open>The list coercion\<close>

lemma split_no_delim: "\<forall>c\<in>set p. \<not> is_delim c \<Longrightarrow> split p = [p]"
  by (induction p) simp_all

lemma split_append_delim:
  "\<forall>c\<in>set p. \<not> is_delim c \<Longrightarrow> is_delim d \<Longrightarrow> split (p @ d # r) = p # split r"
  by (induction p) simp_all

lemma strip_bullet_marker:
  "is_bullet b \<Longrightarrow> \<forall>c\<in>set w. is_ws c \<Longrightarrow> r = [] \<or> \<not> is_ws (hd r)
    \<Longrightarrow> strip_bullet (b # w @ r) = r"
  by (cases r) (simp_all add: dropWhile_append2 dropWhile_append3)

lemma strip_bullet_none: "\<not> is_bullet c \<Longrightarrow> strip_bullet (c # cs) = c # cs"
  by simp

lemma trim_core:
  assumes "\<forall>c\<in>set l. is_ws c" "\<forall>c\<in>set r. is_ws c"
    "m = [] \<or> (\<not> is_ws (hd m) \<and> \<not> is_ws (last m))"
  shows "trim (l @ m @ r) = m"
proof (cases "m = []")
  case True
  have e: "dropWhile is_ws (l @ r) = []"
    unfolding dropWhile_eq_Nil_conv using assms(1,2) by auto
  have "trim (l @ r) = []"
    unfolding trim_def e by simp
  with True show ?thesis by simp
next
  case False
  with assms(3) have hd: "\<not> is_ws (hd m)" and la: "\<not> is_ws (last m)" by auto
  from False obtain x xs where m: "m = x # xs" by (cases m) auto
  from False obtain ys y where m': "m = ys @ [y]" by (cases m rule: rev_cases) auto
  have "dropWhile is_ws (l @ m @ r) = m @ r"
    using assms(1) hd m by (simp add: dropWhile_append2)
  moreover have "dropWhile is_ws (rev (m @ r)) = rev m"
    using assms(2) la m' by (simp add: dropWhile_append3 dropWhile_eq_Nil_conv)
  ultimately show ?thesis by (simp add: trim_def)
qed

text \<open>
  C6, as the code has it. \<open>toList\<close> gives the empty list for \<open>undefined\<close>, \<open>null\<close>,
  the empty string and the empty array; an array keeps its truthy entries in their
  order; a string is split at line feeds and semicolons, each segment loses a leading
  \<open>-\<close>, bullet or \<open>*\<close> together with the white space after it, if any (the character goes
  also when no white space follows), is trimmed, and the empty results are dropped, the
  order kept. The two examples of the specification evaluate as it says.
\<close>

theorem toList_coercion:
  "toList JUndefined = Inr []
   \<and> toList JNull = Inr []
   \<and> toList (JStr []) = Inr []
   \<and> toList (JArr []) = Inr []
   \<and> toList (JArr xs) = Inr (filter truthy xs)
   \<and> toList (JArr [JStr (js ''x''), JStr [], JStr (js ''y'')]) = Inr [JStr (js ''x''), JStr (js ''y'')]
   \<and> toList (JStr s) =
       Inr (map JStr (filter (\<lambda>t. t \<noteq> []) (map (\<lambda>seg. trim (strip_bullet seg)) (split s))))
   \<and> toList (JStr (js ''a; b'' @ [10] @ js ''- c'')) = Inr [JStr (js ''a''), JStr (js ''b''), JStr (js ''c'')]"
proof (intro conjI)
  show "toList (JStr s) =
       Inr (map JStr (filter (\<lambda>t. t \<noteq> []) (map (\<lambda>seg. trim (strip_bullet seg)) (split s))))"
  proof (cases "s = []")
    case True
    then show ?thesis by (simp add: toList_def trim_def)
  next
    case False
    then show ?thesis by (simp add: toList_def filter_map comp_def)
  qed
next
  show "toList (JStr (js ''a; b'' @ [10] @ js ''- c'')) = Inr [JStr (js ''a''), JStr (js ''b''), JStr (js ''c'')]"
    by (simp add: js_def toList_def is_delim_def trim_def is_ws_def is_bullet_def)
qed (simp_all add: toList_def js_def)

text \<open>
  The claim C6 as it is worded fails on a segment whose bullet character is not
  followed by white space: the code removes the hyphen of \<open>-x\<close>, the stripping step
  of the specification leaves the segment as it is.
\<close>

theorem toList_marker_counterexample:
  "toList (JStr (js ''-x'')) = Inr [JStr (js ''x'')]
   \<and> spec_toList_string (js ''-x'') = [js ''-x'']"
  by (simp add: js_def toList_def spec_toList_string_def is_delim_def trim_def is_ws_def
      is_bullet_def)

section \<open>The session\<close>



text \<open>
  C7. A text send from a session that has an id, no attachment and a draft that is not
  blank issues the chat request; when the request fails, whatever the failure, the
  transcript has grown by exactly the user message with the trimmed text and the
  assistant message with the fixed text, the indicator is off, the id is kept, and a
  further draft that is not blank is sent again.
\<close>

theorem sendMessage_transport_failure:
  assumes "conversationId s = Some cid" "cid \<noteq> []" "pendingFile s = None"
    "trim (input_value s) \<noteq> []"
  shows "snd (sendMessage now s) = Some (Chat cid (trim (input_value s)))
    \<and> messages (sendMessage_settled now' (Rejected f) (fst (sendMessage now s))) =
        messages s @
          [\<lparr>msg_id = decimal now, role = User, content = JStr (trim (input_value s)),
            fileName = None\<rparr>,
           \<lparr>msg_id = decimal (now' + 1), role = Assistant,
            content = JStr (js ''Sorry, couldn't reach the server.''), fileName = None\<rparr>]
    \<and> isTyping (sendMessage_settled now' (Rejected f) (fst (sendMessage now s))) = False
    \<and> conversationId (sendMessage_settled now' (Rejected f) (fst (sendMessage now s))) = Some cid
    \<and> pendingFile (sendMessage_settled now' (Rejected f) (fst (sendMessage now s))) = None
    \<and> (trim t \<noteq> [] \<longrightarrow>
         snd (sendMessage now''
               ((sendMessage_settled now' (Rejected f) (fst (sendMessage now s)))\<lparr>input_value := t\<rparr>))
           = Some (Chat cid (trim t)))"
  using assms
  by (simp add: sendMessage_def sendMessage_settled_def reply_content_def fallback_def Let_def)

theorem sendMessage_transport_failure_witness:
  "conversationId sample_session = Some (js ''c1'') \<and> js ''c1'' \<noteq> [] \<and> pendingFile sample_session = None
   \<and> trim (input_value sample_session) \<noteq> []
   \<and> snd (sendMessage 1 sample_session) = Some (Chat (js ''c1'') (trim (input_value sample_session)))
   \<and> messages (sendMessage_settled 5 (Rejected TransportError) (fst (sendMessage 1 sample_session))) =
        messages sample_session @
          [\<lparr>msg_id = decimal 1, role = User, content = JStr (trim (input_value sample_session)),
            fileName = None\<rparr>,
           \<lparr>msg_id = decimal (5 + 1), role = Assistant,
            content = JStr (js ''Sorry, couldn't reach the server.''), fileName = None\<rparr>]
   \<and> isTyping (sendMessage_settled 5 (Rejected TransportError) (fst (sendMessage 1 sample_session))) = False
   \<and> trim (js ''again'') \<noteq> []
   \<and> snd (sendMessage 9
            ((sendMessage_settled 5 (Rejected TransportError) (fst (sendMessage 1 sample_session)))
               \<lparr>input_value := js ''again''\<rparr>))
        = Some (Chat (js ''c1'') (trim (js ''again'')))"
proof -
  have h1: "conversationId sample_session = Some (js ''c1'')" by (simp add: sample_session_def)
  have h2: "js ''c1'' \<noteq> []" by (simp add: js_def)
  have h3: "pendingFile sample_session = None" by (simp add: sample_session_def)
  have h4: "trim (input_value sample_session) \<noteq> []"
    by (simp add: sample_session_def js_def trim_def is_ws_def)
  have h5: "trim (js ''again'') \<noteq> []" by (simp add: js_def trim_def is_ws_def)
  from sendMessage_transport_failure [OF h1 h2 h3 h4, where now = 1 and now' = 5 and f = TransportError
      and t = "js ''again''" and now'' = 9] h1 h2 h3 h4 h5
  show ?thesis by blast
qed

text \<open>
  C8. \<open>sendMessage\<close> returns at once, the session unchanged and nothing handed to
  \<open>fetch\<close>, when the trimmed draft is empty and no attachment is pending, and when no
  conversation id is assigned; \<open>runAnalysis\<close> does the same without an id. In an
  execution such a step changes nothing: no message, no request in flight, nothing
  sent.
\<close>

theorem send_rejected_without_effect:
  "((trim (input_value (app st)) = [] \<and> pendingFile (app st) = None)
      \<or> conversationId (app st) = None
     \<longrightarrow> sendMessage now (app st) = (app st, None) \<and> step st (SendMessage now) = st)
   \<and> (conversationId (app st) = None
     \<longrightarrow> runAnalysis now f prompt (app st) = (app st, None)
         \<and> step st (AnalyzeReportCall now f prompt) = st)"
  by (auto simp add: sendMessage_def runAnalysis_def issue_def Let_def)

theorem send_rejected_without_effect_witness:
  "trim (input_value (app (run blank_draft_run))) = []
   \<and> pendingFile (app (run blank_draft_run)) = None
   \<and> conversationId (app (run blank_draft_run)) = Some (js ''c1'')
   \<and> step (run blank_draft_run) (SendMessage 1) = run blank_draft_run
   \<and> conversationId (app (run connecting_run)) = None
   \<and> input_value (app (run connecting_run)) = js ''hello''
   \<and> step (run connecting_run) (SendMessage 1) = run connecting_run
   \<and> step (run connecting_run) (AnalyzeReportCall 1 (File (js ''scan.png'')) [])
       = run connecting_run"
proof -
  have h1: "trim (input_value (app (run blank_draft_run))) = []
      \<and> pendingFile (app (run blank_draft_run)) = None
      \<and> conversationId (app (run blank_draft_run)) = Some (js ''c1'')"
    by (simp add: blank_draft_run_def run_def initial_def issue_def js_def trim_def is_ws_def
        created_def createConversation_def coalesce_def nullish_def)
  have h2: "conversationId (app (run connecting_run)) = None"
    by (simp add: connecting_run_def run_def initial_def issue_def)
  have h3: "input_value (app (run connecting_run)) = js ''hello''"
    by (simp add: connecting_run_def run_def initial_def issue_def)
  have a: "step (run blank_draft_run) (SendMessage 1) = run blank_draft_run"
    using send_rejected_without_effect [where st = "run blank_draft_run" and now = 1] h1
    by blast
  have b: "step (run connecting_run) (SendMessage 1) = run connecting_run
      \<and> step (run connecting_run) (AnalyzeReportCall 1 (File (js ''scan.png'')) [])
          = run connecting_run"
    using send_rejected_without_effect [where st = "run connecting_run" and now = 1
      and f = "File (js ''scan.png'')" and prompt = "[]"] h2
    by blast
  from a b h1 h2 h3 show ?thesis by (elim conjE) (intro conjI, assumption+)
qed

text \<open>
  C10. An analysis with the empty prompt shows the user message \<open>Analyze this report\<close>
  and transmits the multipart field \<open>message\<close> with the text
  \<open>Please analyze this medical report.\<close>; sending from the chat with an attachment and
  a blank draft is this call; the two default texts differ.
\<close>

theorem runAnalysis_default_prompts:
  "(conversationId s = Some cid \<and> cid \<noteq> [] \<longrightarrow>
      runAnalysis now f [] s =
        (s\<lparr>messages := messages s @
              [\<lparr>msg_id = decimal now, role = User, content = JStr (js ''Analyze this report''),
                fileName = Some (file_name f)\<rparr>],
            isTyping := True\<rparr>,
         Some (AnalyzeReport cid f (js ''Please analyze this medical report.''))))
   \<and> (conversationId s = Some cid \<and> cid \<noteq> [] \<and> pendingFile s = Some f
        \<and> trim (input_value s) = [] \<longrightarrow>
      sendMessage now s = runAnalysis now f [] (s\<lparr>pendingFile := None, input_value := []\<rparr>))
   \<and> js ''Analyze this report'' \<noteq> js ''Please analyze this medical report.''"
  by (simp add: runAnalysis_def sendMessage_def Let_def js_def)

theorem runAnalysis_default_prompts_witness:
  "conversationId attachment_session = Some (js ''c1'')
   \<and> js ''c1'' \<noteq> []
   \<and> pendingFile attachment_session = Some (File (js ''scan.png''))
   \<and> trim (input_value attachment_session) = []
   \<and> sendMessage 1 attachment_session =
        (attachment_session
           \<lparr>pendingFile := None,
            messages := [\<lparr>msg_id = decimal 1, role = User,
                          content = JStr (js ''Analyze this report''),
                          fileName = Some (js ''scan.png'')\<rparr>],
            isTyping := True\<rparr>,
         Some (AnalyzeReport (js ''c1'') (File (js ''scan.png''))
                (js ''Please analyze this medical report.'')))"
proof -
  let ?f = "File (js ''scan.png'')"
  let ?s' = "attachment_session\<lparr>pendingFile := None, input_value := []\<rparr>"
  have h: "conversationId attachment_session = Some (js ''c1'') \<and> js ''c1'' \<noteq> []
      \<and> pendingFile attachment_session = Some ?f \<and> trim (input_value attachment_session) = []"
    by (simp add: attachment_session_def sample_session_def js_def trim_def)
  have h': "conversationId ?s' = Some (js ''c1'') \<and> js ''c1'' \<noteq> []"
    by (simp add: attachment_session_def sample_session_def js_def)
  have e: "sendMessage 1 attachment_session = runAnalysis 1 ?f [] ?s'"
    using runAnalysis_default_prompts [where s = attachment_session and cid = "js ''c1''"
        and f = ?f and now = 1] h
    by blast
  have "runAnalysis 1 ?f [] ?s' =
        (?s'\<lparr>messages := messages ?s' @
              [\<lparr>msg_id = decimal 1, role = User, content = JStr (js ''Analyze this report''),
                fileName = Some (file_name ?f)\<rparr>],
            isTyping := True\<rparr>,
         Some (AnalyzeReport (js ''c1'') ?f (js ''Please analyze this medical report.'')))"
    using runAnalysis_default_prompts [where s = ?s' and cid = "js ''c1''" and f = ?f
        and now = 1] h'
    by blast
  with e h show ?thesis by (simp add: attachment_session_def sample_session_def)
qed

text \<open>
  From the page the prompt is never empty: \<open>handleAnalyze\<close> puts the transmitted default
  in its place before the call, so there the message shown carries it too.
\<close>

lemma handleAnalyze_default:
  "handleAnalyze now (Some f) [] s =
     runAnalysis now f (js ''Please analyze this medical report.'') s"
  by (simp add: handleAnalyze_def)

text \<open>
  C1, as the code has it. A reset while a chat request is in flight empties the
  transcript, drops the id and the attachment and issues a fresh creation request; the
  old request stays in flight. Nothing guards its continuation: whenever it settles, its
  reply, or the fixed text on failure, is appended to the transcript of that moment and
  the indicator is switched off. Settling right after the reset, it becomes the only
  entry of the new transcript.
\<close>

theorem clearChat_keeps_inflight_reply:
  assumes "k < length (inflight st)" "inflight st ! k = Chatting cid"
  shows "messages (app (step st ClearChat)) = []
    \<and> conversationId (app (step st ClearChat)) = None
    \<and> pendingFile (app (step st ClearChat)) = None
    \<and> outbox (step st ClearChat) = outbox st @ [CreateConversation]
    \<and> k < length (inflight (step st ClearChat))
    \<and> inflight (step st ClearChat) ! k = Chatting cid
    \<and> messages (app (step st (Settle k r now))) =
        messages (app st) @
          [\<lparr>msg_id = decimal (now + 1), role = Assistant, content = reply_content r,
            fileName = None\<rparr>]
    \<and> messages (app (step (step st ClearChat) (Settle k r now))) =
        [\<lparr>msg_id = decimal (now + 1), role = Assistant, content = reply_content r,
          fileName = None\<rparr>]
    \<and> isTyping (app (step (step st ClearChat) (Settle k r now))) = False"
  using assms
  by (simp add: issue_def clearChat_def nth_append sendMessage_settled_def)

theorem clearChat_keeps_inflight_reply_witness:
  "0 < length (inflight (run (take 4 reset_race)))
   \<and> inflight (run (take 4 reset_race)) ! 0 = Chatting (js ''c1'')
   \<and> messages (app (step (run (take 4 reset_race)) ClearChat)) = []
   \<and> messages
        (app (step (step (run (take 4 reset_race)) ClearChat)
               (Settle 0 (Resolved (JStr (js ''stale''))) 5))) =
       [\<lparr>msg_id = decimal (5 + 1), role = Assistant,
         content = reply_content (Resolved (JStr (js ''stale''))), fileName = None\<rparr>]"
proof -
  have h1: "0 < length (inflight (run (take 4 reset_race)))"
    by (simp add: reset_race_def run_def initial_def issue_def js_def created_def
        createConversation_def coalesce_def nullish_def sendMessage_def trim_def is_ws_def
        Let_def)
  have h2: "inflight (run (take 4 reset_race)) ! 0 = Chatting (js ''c1'')"
    by (simp add: reset_race_def run_def initial_def issue_def js_def created_def
        createConversation_def coalesce_def nullish_def sendMessage_def trim_def is_ws_def
        Let_def)
  from clearChat_keeps_inflight_reply [OF h1 h2, where r = "Resolved (JStr (js ''stale''))"
      and now = 5] h1 h2
  show ?thesis by blast
qed

text \<open>
  The claim C1 as it is worded fails. In \<open>reset_race\<close> nothing is sent after the
  reset, so the fresh conversation \<open>c2\<close> has no message of its own; yet the reply to
  the message sent under \<open>c1\<close> ends up in its transcript.
\<close>

theorem reset_race_counterexample:
  "outbox (run reset_race) =
     [CreateConversation, Chat (js ''c1'') (js ''hello''), CreateConversation]
   \<and> conversationId (app (run reset_race)) = Some (js ''c2'')
   \<and> inflight (run reset_race) = []
   \<and> messages (app (run reset_race)) =
       [\<lparr>msg_id = decimal 6, role = Assistant, content = JStr (js ''stale''), fileName = None\<rparr>]"
  by (simp add: reset_race_def run_def initial_def issue_def js_def created_def
      createConversation_def coalesce_def nullish_def sendMessage_def trim_def is_ws_def
      clearChat_def sendMessage_settled_def reply_content_def extractContent_def Let_def)

text \<open>
  The same holds of a report analysis in flight: \<open>runAnalysis\<close> continues in the same
  way when its request settles.
\<close>

lemma clearChat_keeps_inflight_analysis:
  assumes "k < length (inflight st)" "inflight st ! k = Analysing cid"
  shows "k < length (inflight (step st ClearChat))
    \<and> inflight (step st ClearChat) ! k = Analysing cid
    \<and> messages (app (step st (Settle k r now))) =
        messages (app st) @
          [\<lparr>msg_id = decimal (now + 1), role = Assistant, content = reply_content r,
            fileName = None\<rparr>]
    \<and> messages (app (step (step st ClearChat) (Settle k r now))) =
        [\<lparr>msg_id = decimal (now + 1), role = Assistant, content = reply_content r,
          fileName = None\<rparr>]
    \<and> isTyping (app (step (step st ClearChat) (Settle k r now))) = False"
  using assms
  by (simp add: issue_def clearChat_def nth_append runAnalysis_settled_def)

end
